theory Spec2Isabelle
  imports Complex_Main "HOL-Library.Log_Nat"
begin

section \<open>Data model of the page component\<close>

text \<open>
  The component \<open>Home\<close> keeps six pieces of React state.  The interfaces of the
  source become records; \<open>T | null\<close> becomes \<open>T option\<close>.  The three shapes
  \<open>{ width: number; height: number }\<close> of the source (target dimensions, natural
  dimensions of the original, dimensions of the processed image) are one record.
  All numbers stored in them are integer-valued doubles: \<open>img.width\<close>, the result of
  \<open>Math.round\<close>, and the argument \<open>parseInt(e.target.value) || 1\<close> of
  \<open>handleDimensionChange\<close>.
\<close>

record File =
  fname :: string
  fsize :: nat

record OriginalImage =
  file' :: File
  preview :: string

record DimensionSettings =
  width :: int
  height :: int

record ProcessingState =
  isProcessing :: bool
  error :: "string option"
  processedImage :: "string option"
  processedImageDimensions :: "DimensionSettings option"

record CheckResults =
  background_check :: bool
  dimension_check :: bool
  alignment_check :: bool
  target_dimensions :: "DimensionSettings option"

record CheckState =
  isChecking :: bool
  error :: "string option"
  results :: "CheckResults option"

record FixOptions =
  fix_dimensions :: bool
  fix_background :: bool
  fix_alignment :: bool

text \<open>
  The two \<open>fetch\<close> calls of the source, with the form fields they carry.
\<close>

datatype request =
  CheckRequest File int int
| ProcessRequest File bool bool bool int int

text \<open>
  The state of the component together with the effects it has on its environment:
  the requests issued with \<open>fetch\<close>, the object URLs obtained from
  \<open>URL.createObjectURL\<close> and those given to \<open>URL.revokeObjectURL\<close>, each in
  the order of the calls.
\<close>

record Home =
  originalImage :: "OriginalImage option"
  originalDimensions :: "DimensionSettings option"
  dimensions :: DimensionSettings
  state :: ProcessingState
  checkState :: CheckState
  fixOptions :: FixOptions
  requests :: "request list"
  created :: "string list"
  revoked :: "string list"

text \<open>The initial values given to \<open>useState\<close>, with no effect yet on the environment.\<close>

definition defaultDimensions :: DimensionSettings where
  "defaultDimensions = \<lparr>width = 1200, height = 1200\<rparr>"

definition initialProcessingState :: ProcessingState where
  "initialProcessingState =
     \<lparr>isProcessing = False, error = None, processedImage = None,
      processedImageDimensions = None\<rparr>"

definition initialCheckState :: CheckState where
  "initialCheckState = \<lparr>isChecking = False, error = None, results = None\<rparr>"

definition allFixes :: FixOptions where
  "allFixes = \<lparr>fix_dimensions = True, fix_background = True, fix_alignment = True\<rparr>"

definition initialHome :: Home where
  "initialHome =
     \<lparr>originalImage = None, originalDimensions = None, dimensions = defaultDimensions,
      state = initialProcessingState, checkState = initialCheckState,
      fixOptions = allFixes, requests = [], created = [], revoked = []\<rparr>"

section \<open>JavaScript numbers\<close>

text \<open>
  A JavaScript \<open>number\<close> is an IEEE 754 binary64 value.  Every arithmetic operation
  computes the exact result and rounds it to the nearest value with a 53-bit
  significand, ties to the even significand.  Finite doubles are rationals, so the
  rounding is a function on \<open>rat\<close>.  The model covers the normal range (no overflow
  to \<open>Infinity\<close>, no subnormal results, no \<open>NaN\<close>, no division by zero).  Every
  number the dimension editor computes lies in it when the natural dimensions are
  positive integers below \<open>2 ^ 32\<close> (\<open>img.width\<close> and \<open>img.height\<close> of a
  decoded image) and the edited value is an integer below \<open>2 ^ 53\<close> in magnitude.

  \<open>ilog2 x\<close> is the binary exponent of a positive \<open>x\<close>: the \<open>e\<close> with
  \<open>2 ^ e \<le> x < 2 ^ (e + 1)\<close>.
\<close>

definition ilog2 :: "rat \<Rightarrow> int" where
  "ilog2 x =
     (let (a, b) = quotient_of x; d = bitlen a - bitlen b
      in if 2 powi d \<le> x then d else d - 1)"

text \<open>Rounding to the nearest integer, a tie going to the even one.\<close>

definition rne :: "rat \<Rightarrow> int" where
  "rne q =
     (let f = \<lfloor>q\<rfloor>; r = q - of_int f
      in if r < 1 / 2 then f else if 1 / 2 < r then f + 1
         else if even f then f else f + 1)"

text \<open>Rounding a rational to the nearest double.\<close>

definition fl :: "rat \<Rightarrow> rat" where
  "fl x =
     (if x = 0 then 0
      else let u = 2 powi (ilog2 \<bar>x\<bar> - 52)
           in sgn x * of_int (rne (\<bar>x\<bar> / u)) * u)"

text \<open>The operators \<open>/\<close> and \<open>*\<close> on numbers.\<close>

definition js_div :: "rat \<Rightarrow> rat \<Rightarrow> rat" where
  "js_div a b = fl (a / b)"

definition js_mul :: "rat \<Rightarrow> rat \<Rightarrow> rat" where
  "js_mul a b = fl (a * b)"

text \<open>
  \<open>Math.round\<close> returns the integer closest to its argument, the one closer to
  \<open>+\<infinity>\<close> when two are equally close.
\<close>

definition Math_round :: "rat \<Rightarrow> int" where
  "Math_round x = \<lfloor>x + 1 / 2\<rfloor>"

text \<open>
  The mathematical rounding the specification writes as \<open>round\<close>, on an exact
  quotient of integers.
\<close>

definition round_exact :: "int \<Rightarrow> int \<Rightarrow> int" where
  "round_exact p q = \<lfloor>of_int p / (of_int q :: rat) + 1 / 2\<rfloor>"

text \<open>The decimal digits of a number, as a template literal prints a status code.\<close>

definition digit :: "nat \<Rightarrow> char" where
  "digit d = ''0123456789'' ! d"

function dec :: "nat \<Rightarrow> string" where
  "dec n = (if n < 10 then [digit n] else dec (n div 10) @ [digit (n mod 10)])"
  by pat_completeness auto
termination
  by (relation "measure id") auto

section \<open>The dimension editor\<close>

datatype field = Width | Height

text \<open>
  \<open>handleDimensionChange\<close>: with natural dimensions present, the aspect ratio is
  the double \<open>originalDimensions.width / originalDimensions.height\<close>, the edited
  field is stored as given and the other one is \<open>Math.round(value / aspectRatio)\<close>
  or \<open>Math.round(value * aspectRatio)\<close>.  Without them only the edited field is
  replaced.  The only caller passes \<open>parseInt(e.target.value) || 1\<close>, an integer
  other than 0.
\<close>

definition handleDimensionChange :: "field \<Rightarrow> int \<Rightarrow> Home \<Rightarrow> Home" where
  "handleDimensionChange fld val s =
     (case originalDimensions s of
        Some od \<Rightarrow>
          (let aspectRatio = js_div (of_int (width od)) (of_int (height od))
           in case fld of
                Width \<Rightarrow>
                  s\<lparr>dimensions :=
                      \<lparr>width = val,
                       height = Math_round (js_div (of_int val) aspectRatio)\<rparr>\<rparr>
              | Height \<Rightarrow>
                  s\<lparr>dimensions :=
                      \<lparr>width = Math_round (js_mul (of_int val) aspectRatio),
                       height = val\<rparr>\<rparr>)
      | None \<Rightarrow>
          (case fld of
             Width \<Rightarrow> s\<lparr>dimensions := (dimensions s)\<lparr>width := val\<rparr>\<rparr>
           | Height \<Rightarrow> s\<lparr>dimensions := (dimensions s)\<lparr>height := val\<rparr>\<rparr>))"

section \<open>Upload\<close>

datatype FileRejection = FileRejection File

text \<open>
  \<open>onDrop\<close> itself only records the rejection error; for an accepted file it starts
  a \<open>FileReader\<close> and changes nothing.
\<close>

definition onDrop :: "File list \<Rightarrow> FileRejection list \<Rightarrow> Home \<Rightarrow> Home" where
  "onDrop acceptedFiles rejectedFiles s =
     (if rejectedFiles \<noteq> []
      then s\<lparr>state := (state s)\<lparr>ProcessingState.error :=
                 Some ''Please upload a valid image file''\<rparr>\<rparr>
      else s)"

text \<open>The file that \<open>onDrop\<close> hands to the \<open>FileReader\<close>, if any.\<close>

definition onDrop_reads :: "File list \<Rightarrow> FileRejection list \<Rightarrow> File option" where
  "onDrop_reads acceptedFiles rejectedFiles =
     (if rejectedFiles \<noteq> [] then None
      else case acceptedFiles of [] \<Rightarrow> None | f # _ \<Rightarrow> Some f)"

text \<open>
  The callback \<open>img.onload\<close> inside \<open>onDrop\<close>, run when the file has been read as a
  data URL \<open>result\<close> and decoded as an image of \<open>w\<close> by \<open>h\<close> pixels.
\<close>

definition onDrop_img_onload :: "File \<Rightarrow> string \<Rightarrow> int \<Rightarrow> int \<Rightarrow> Home \<Rightarrow> Home" where
  "onDrop_img_onload f result w h s =
     s\<lparr>originalImage := Some \<lparr>file' = f, preview = result\<rparr>,
       originalDimensions := Some \<lparr>width = w, height = h\<rparr>,
       dimensions := \<lparr>width = 1200, height = 1200\<rparr>,
       state := \<lparr>isProcessing = False, error = None, processedImage = None,
                 processedImageDimensions = None\<rparr>,
       checkState := \<lparr>isChecking = False, error = None, results = None\<rparr>,
       fixOptions := \<lparr>fix_dimensions = True, fix_background = True,
                      fix_alignment = True\<rparr>\<rparr>"

section \<open>Checking\<close>

text \<open>
  \<open>checkImage\<close> is an async function.  Its first segment runs synchronously up to
  \<open>await fetch(...)\<close>: the guard on \<open>originalImage\<close>, the update of
  \<open>checkState\<close>, and the request, which carries the file and the target dimensions
  of the moment of the call.
\<close>

definition checkImage :: "Home \<Rightarrow> Home" where
  "checkImage s =
     (case originalImage s of
        None \<Rightarrow> s
      | Some oi \<Rightarrow>
          s\<lparr>checkState := (checkState s)\<lparr>isChecking := True, CheckState.error := None\<rparr>,
            requests := requests s @
              [CheckRequest (file' oi) (width (dimensions s)) (height (dimensions s))]\<rparr>)"

text \<open>
  What the awaited calls can deliver: a rejection of \<open>fetch\<close>, \<open>response.text()\<close>
  or \<open>response.json()\<close> (with the message of the \<open>Error\<close>, or \<open>None\<close> when
  the thrown value is no \<open>Error\<close>); a response that is not \<open>ok\<close>, with its status
  and body text; a body that parses to \<open>null\<close>; a body that parses to an object of
  the declared shape of \<open>CheckState.results\<close>.  Both are values of the declared
  type \<open>{...} | null\<close> of \<open>results\<close>.  Bodies that parse to anything else are
  not modelled; nothing throws on them.
\<close>

datatype check_outcome =
  CheckRejected "string option"
| CheckNotOk nat string
| CheckJsonNull
| CheckJson CheckResults

text \<open>The \<open>catch\<close> block of \<open>checkImage\<close>.\<close>

definition checkImage_catch :: "string option \<Rightarrow> Home \<Rightarrow> Home" where
  "checkImage_catch err s =
     s\<lparr>checkState := (checkState s)\<lparr>isChecking := False,
         CheckState.error := Some (case err of Some message \<Rightarrow> message
                                    | None \<Rightarrow> ''Check failed'')\<rparr>\<rparr>"

text \<open>
  The rest of \<open>checkImage\<close>, run when the awaited calls have delivered.  For a body
  \<open>null\<close> the first \<open>setCheckState\<close> has already stored \<open>results: null\<close> when
  the read of \<open>results.dimension_check\<close> throws a \<open>TypeError\<close>.
\<close>

definition checkImage_response :: "check_outcome \<Rightarrow> Home \<Rightarrow> Home" where
  "checkImage_response outcome s =
     (case outcome of
        CheckRejected err \<Rightarrow> checkImage_catch err s
      | CheckNotOk status errorText \<Rightarrow>
          checkImage_catch
            (Some (''Check failed: '' @ dec status @ '' - '' @ errorText)) s
      | CheckJsonNull \<Rightarrow>
          checkImage_catch
            (Some ''Cannot read properties of null (reading 'dimension_check')'')
            (s\<lparr>checkState := (checkState s)\<lparr>isChecking := False, results := None\<rparr>\<rparr>)
      | CheckJson res \<Rightarrow>
          s\<lparr>checkState := (checkState s)\<lparr>isChecking := False, results := Some res\<rparr>,
            fixOptions :=
              \<lparr>fix_dimensions = \<not> dimension_check res,
               fix_background = \<not> background_check res,
               fix_alignment = \<not> alignment_check res\<rparr>\<rparr>)"

section \<open>Processing\<close>

text \<open>The synchronous first segment of \<open>processImage\<close>, up to \<open>await fetch(...)\<close>.\<close>

definition processImage :: "Home \<Rightarrow> Home" where
  "processImage s =
     (case originalImage s of
        None \<Rightarrow> s
      | Some oi \<Rightarrow>
          s\<lparr>state := (state s)\<lparr>isProcessing := True, ProcessingState.error := None\<rparr>,
            requests := requests s @
              [ProcessRequest (file' oi)
                 (fix_dimensions (fixOptions s)) (fix_background (fixOptions s))
                 (fix_alignment (fixOptions s))
                 (width (dimensions s)) (height (dimensions s))]\<rparr>)"

text \<open>
  What the awaited calls can deliver: a rejection, a response that is not \<open>ok\<close>, or
  a blob, for which \<open>URL.createObjectURL\<close> returns the given URL.
\<close>

datatype process_outcome =
  ProcessRejected "string option"
| ProcessNotOk nat string
| ProcessBlob string

definition processImage_catch :: "string option \<Rightarrow> Home \<Rightarrow> Home" where
  "processImage_catch err s =
     s\<lparr>state := (state s)\<lparr>isProcessing := False,
         ProcessingState.error := Some (case err of Some message \<Rightarrow> message
                                         | None \<Rightarrow> ''Processing failed'')\<rparr>\<rparr>"

text \<open>
  The rest of \<open>processImage\<close>.  For a blob it creates the object URL and starts
  decoding it; the component's state changes only in the callbacks below.
\<close>

definition processImage_response :: "process_outcome \<Rightarrow> Home \<Rightarrow> Home" where
  "processImage_response outcome s =
     (case outcome of
        ProcessRejected err \<Rightarrow> processImage_catch err s
      | ProcessNotOk status errorText \<Rightarrow>
          processImage_catch
            (Some (''Processing failed: '' @ dec status @ '' - '' @ errorText)) s
      | ProcessBlob processedUrl \<Rightarrow> s\<lparr>created := created s @ [processedUrl]\<rparr>)"

text \<open>The callbacks \<open>img.onload\<close> and \<open>img.onerror\<close> inside \<open>processImage\<close>.\<close>

definition processImage_img_onload :: "string \<Rightarrow> int \<Rightarrow> int \<Rightarrow> Home \<Rightarrow> Home" where
  "processImage_img_onload processedUrl w h s =
     s\<lparr>state := (state s)\<lparr>isProcessing := False,
         processedImage := Some processedUrl,
         processedImageDimensions := Some \<lparr>width = w, height = h\<rparr>\<rparr>\<rparr>"

definition processImage_img_onerror :: "Home \<Rightarrow> Home" where
  "processImage_img_onerror s =
     s\<lparr>state := (state s)\<lparr>isProcessing := False,
         ProcessingState.error := Some ''Failed to load processed image''\<rparr>\<rparr>"

section \<open>Reset\<close>

text \<open>
  \<open>reset\<close> restores the initial state and revokes the object URL of the processed
  image of the state it was called in, when that is a non-empty string.
\<close>

definition reset :: "Home \<Rightarrow> Home" where
  "reset s =
     s\<lparr>originalImage := None,
       originalDimensions := None,
       dimensions := \<lparr>width = 1200, height = 1200\<rparr>,
       state := \<lparr>isProcessing = False, error = None, processedImage = None,
                 processedImageDimensions = None\<rparr>,
       checkState := \<lparr>isChecking = False, error = None, results = None\<rparr>,
       fixOptions := \<lparr>fix_dimensions = True, fix_background = True,
                      fix_alignment = True\<rparr>,
       revoked :=
         (case processedImage (state s) of
            None \<Rightarrow> revoked s
          | Some url \<Rightarrow> if url = [] then revoked s else revoked s @ [url])\<rparr>"

section \<open>The action buttons\<close>

text \<open>
  The buttons are rendered only while \<open>originalImage\<close> is set.  The check button
  has \<open>disabled={checkState.isChecking}\<close>, the process button
  \<open>disabled={state.isProcessing || !checkState.results}\<close>; a disabled button does
  not run its \<open>onClick\<close> handler.
\<close>

definition checkButton_disabled :: "Home \<Rightarrow> bool" where
  "checkButton_disabled s = isChecking (checkState s)"

definition processButton_disabled :: "Home \<Rightarrow> bool" where
  "processButton_disabled s =
     (isProcessing (state s) \<or> results (checkState s) = None)"

definition checkButton_onClick :: "Home \<Rightarrow> Home" where
  "checkButton_onClick s =
     (if originalImage s = None \<or> checkButton_disabled s then s else checkImage s)"

definition processButton_onClick :: "Home \<Rightarrow> Home" where
  "processButton_onClick s =
     (if originalImage s = None \<or> processButton_disabled s then s else processImage s)"

section \<open>The range of the number inputs\<close>

text \<open>
  Both number inputs carry \<open>min="1"\<close> and \<open>max="5000"\<close>.  This is the range
  they declare; no handler tests it.
\<close>

definition validDimensions :: "DimensionSettings \<Rightarrow> bool" where
  "validDimensions d =
     (1 \<le> width d \<and> width d \<le> 5000 \<and> 1 \<le> height d \<and> height d \<le> 5000)"

section \<open>Example sessions\<close>

definition exampleFile :: File where
  "exampleFile = \<lparr>fname = ''photo.png'', fsize = 2048\<rparr>"

text \<open>A fresh component in which a \<open>w\<close> by \<open>h\<close> image has been uploaded.\<close>

definition loaded :: "int \<Rightarrow> int \<Rightarrow> Home" where
  "loaded w h =
     onDrop_img_onload exampleFile ''data:image/png;base64,AAAA'' w h initialHome"

definition exampleResults :: CheckResults where
  "exampleResults =
     \<lparr>background_check = False, dimension_check = True, alignment_check = False,
      target_dimensions = None\<rparr>"

text \<open>A 2000 by 1000 image uploaded and checked once, by a click on the check button.\<close>

definition checked :: Home where
  "checked =
     checkImage_response (CheckJson exampleResults)
       (checkButton_onClick (loaded 2000 1000))"

text \<open>
  A click on the process button, answered by a blob whose object URL is \<open>url\<close> and
  which decodes to a 1200 by 1200 image.
\<close>

definition processedWith :: "string \<Rightarrow> Home \<Rightarrow> Home" where
  "processedWith url s =
     processImage_img_onload url 1200 1200
       (processImage_response (ProcessBlob url) (processButton_onClick s))"

lemmas home_defs = loaded_def exampleFile_def initialHome_def defaultDimensions_def
  initialProcessingState_def initialCheckState_def allFixes_def onDrop_img_onload_def

lemmas run_defs = home_defs checked_def exampleResults_def processedWith_def
  checkButton_onClick_def checkButton_disabled_def processButton_onClick_def
  processButton_disabled_def checkImage_def checkImage_response_def checkImage_catch_def
  processImage_def processImage_response_def processImage_catch_def
  processImage_img_onload_def processImage_img_onerror_def reset_def

section \<open>Rounding to a double: error bounds\<close>

lemma rne_err: "\<bar>of_int (rne q) - q\<bar> \<le> 1 / 2"
proof -
  define f where "f = \<lfloor>q\<rfloor>"
  have 1: "of_int f \<le> q" and 2: "q < of_int f + 1"
    unfolding f_def by linarith+
  show ?thesis
    unfolding rne_def Let_def f_def [symmetric] using 1 2 by auto
qed

lemma rne_nonneg: "0 \<le> q \<Longrightarrow> 0 \<le> rne q"
  unfolding rne_def Let_def by auto

lemma ilog2_le:
  assumes "0 < x"
  shows "2 powi (ilog2 x) \<le> x"
proof -
  obtain a b where ab: "quotient_of x = (a, b)" by (cases "quotient_of x")
  have b: "0 < b" using quotient_of_denom_pos [OF ab] .
  have x: "x = of_int a / of_int b" using quotient_of_div [OF ab] .
  have a: "0 < a" using assms b x by (simp add: zero_less_divide_iff)
  define d where "d = bitlen a - bitlen b"
  show ?thesis
  proof (cases "2 powi d \<le> x")
    case True
    then show ?thesis by (simp add: ilog2_def ab d_def)
  next
    case False
    have e: "ilog2 x = d - 1" using False by (simp add: ilog2_def ab d_def)
    have la: "(2::int) ^ nat (bitlen a - 1) \<le> a" using bitlen_bounds [OF a] by simp
    have lb: "b < (2::int) ^ nat (bitlen b)" using bitlen_bounds [OF b] by simp
    have pa: "1 \<le> bitlen a" using a bitlen_eq_zero_iff [of a] bitlen_nonneg [of a] by linarith
    have eq: "d - 1 = (bitlen a - 1) - bitlen b" by (simp add: d_def)
    have "(2::rat) powi (d - 1) = 2 powi ((bitlen a - 1) - bitlen b)"
      by (simp only: eq)
    also have "\<dots> = 2 powi (bitlen a - 1) / 2 powi (bitlen b)"
      by (rule power_int_diff) simp
    also have "\<dots> = 2 ^ nat (bitlen a - 1) / 2 ^ nat (bitlen b)"
      using pa bitlen_nonneg [of b] by (simp add: power_int_def)
    also have "\<dots> \<le> of_int a / of_int b"
    proof -
      have 1: "(2::rat) ^ nat (bitlen a - 1) \<le> of_int a"
        using la by (metis of_int_le_iff of_int_numeral of_int_power)
      have 2: "of_int b \<le> (2::rat) ^ nat (bitlen b)"
        using lb by (metis less_imp_le of_int_le_iff of_int_numeral of_int_power)
      show ?thesis
        by (rule frac_le) (use 1 2 b a in auto)
    qed
    finally show ?thesis using e x by simp
  qed
qed

lemma ilog2_gt:
  assumes "0 < x"
  shows "x < 2 powi (ilog2 x + 1)"
proof -
  obtain a b where ab: "quotient_of x = (a, b)" by (cases "quotient_of x")
  have b: "0 < b" using quotient_of_denom_pos [OF ab] .
  have x: "x = of_int a / of_int b" using quotient_of_div [OF ab] .
  have a: "0 < a" using assms b x by (simp add: zero_less_divide_iff)
  define d where "d = bitlen a - bitlen b"
  show ?thesis
  proof (cases "2 powi d \<le> x")
    case False
    then show ?thesis by (simp add: ilog2_def ab d_def)
  next
    case True
    have e: "ilog2 x = d" using True by (simp add: ilog2_def ab d_def)
    have la: "a < (2::int) ^ nat (bitlen a)" using bitlen_bounds [OF a] by simp
    have lb: "(2::int) ^ nat (bitlen b - 1) \<le> b" using bitlen_bounds [OF b] by simp
    have pb: "1 \<le> bitlen b"
      using b bitlen_eq_zero_iff [of b] bitlen_nonneg [of b] by linarith
    have 1: "of_int a < (2::rat) ^ nat (bitlen a)"
      using la by (metis of_int_less_iff of_int_numeral of_int_power)
    have 2: "(2::rat) ^ nat (bitlen b - 1) \<le> of_int b"
      using lb by (metis of_int_le_iff of_int_numeral of_int_power)
    have "of_int a / of_int b < (2::rat) ^ nat (bitlen a) / 2 ^ nat (bitlen b - 1)"
      by (rule frac_less) (use 1 2 a b in auto)
    also have "\<dots> = 2 powi (bitlen a) / 2 powi (bitlen b - 1)"
      using pb bitlen_nonneg [of a] by (simp add: power_int_def)
    also have "\<dots> = 2 powi (bitlen a - (bitlen b - 1))"
      by (rule power_int_diff [symmetric]) simp
    also have "bitlen a - (bitlen b - 1) = d + 1" by (simp add: d_def)
    finally show ?thesis using e x by simp
  qed
qed

lemma fl_err:
  assumes "0 < x"
  shows "\<bar>fl x - x\<bar> \<le> x / 2 ^ 53"
proof -
  define u :: rat where "u = 2 powi (ilog2 x - 52)"
  have u: "0 < u" by (simp add: u_def)
  have f: "fl x = of_int (rne (x / u)) * u"
    using assms by (simp add: fl_def u_def Let_def)
  have "fl x - x = (of_int (rne (x / u)) - x / u) * u"
    using u by (simp add: f field_simps)
  then have "\<bar>fl x - x\<bar> = \<bar>of_int (rne (x / u)) - x / u\<bar> * u"
    using u by (simp add: abs_mult)
  also have "\<dots> \<le> 1 / 2 * u"
    using rne_err [of "x / u"] u by (intro mult_right_mono) auto
  also have "\<dots> = 2 powi (ilog2 x) / 2 ^ 53"
    by (simp add: u_def power_int_diff)
  also have "\<dots> \<le> x / 2 ^ 53"
    using ilog2_le [OF assms] by (simp add: divide_right_mono)
  finally show ?thesis .
qed

lemma fl_nonneg: "0 \<le> x \<Longrightarrow> 0 \<le> fl x"
  by (cases "x = 0") (auto simp: fl_def Let_def intro!: mult_nonneg_nonneg rne_nonneg divide_nonneg_nonneg)

text \<open>Rounding to nearest never leaves an interval between two integers.\<close>

lemma rne_between:
  assumes "of_int n \<le> q" and "q \<le> of_int m"
  shows "n \<le> rne q" and "rne q \<le> m"
proof -
  have e: "\<bar>of_int (rne q) - q\<bar> \<le> 1 / 2" by (rule rne_err)
  have "(of_int n :: rat) - 1 < of_int (rne q)" using e assms(1) by linarith
  then have "(of_int (n - 1) :: rat) < of_int (rne q)" by simp
  then show "n \<le> rne q" by simp
  have "(of_int (rne q) :: rat) < of_int m + 1" using e assms(2) by linarith
  then have "(of_int (rne q) :: rat) < of_int (m + 1)" by simp
  then show "rne q \<le> m" by simp
qed

text \<open>
  For positive \<open>x\<close> with binary exponent \<open>e\<close>, \<open>fl x\<close> is an integer
  significand between \<open>2 ^ 52\<close> and \<open>2 ^ 53\<close> times \<open>2 ^ (e - 52)\<close>, at most
  half a unit in the last place away from \<open>x\<close>: a double nearest to \<open>x\<close>.
\<close>

lemma fl_is_double:
  assumes "0 < x"
  shows "fl x = of_int (rne (x / 2 powi (ilog2 x - 52))) * 2 powi (ilog2 x - 52)"
    and "2 ^ 52 \<le> rne (x / 2 powi (ilog2 x - 52))"
    and "rne (x / 2 powi (ilog2 x - 52)) \<le> 2 ^ 53"
    and "\<bar>fl x - x\<bar> \<le> 2 powi (ilog2 x - 52) / 2"
proof -
  define u :: rat where "u = 2 powi (ilog2 x - 52)"
  have u: "0 < u" by (simp add: u_def)
  have p: "(2::rat) powi (ilog2 x) = 2 ^ 52 * u"
    by (simp add: u_def power_int_diff)
  have p': "(2::rat) powi (ilog2 x + 1) = 2 ^ 53 * u"
    by (simp add: u_def power_int_diff power_int_add)
  show f: "fl x = of_int (rne (x / u)) * u"
    using assms by (simp add: fl_def u_def Let_def)
  have "2 ^ 52 * u \<le> x" using ilog2_le [OF assms] p by simp
  then have lo: "of_int (2 ^ 52) \<le> x / u" using u by (simp add: field_simps)
  have "x < 2 ^ 53 * u" using ilog2_gt [OF assms] p' by simp
  then have hi: "x / u \<le> of_int (2 ^ 53)" using u by (simp add: field_simps)
  show "2 ^ 52 \<le> rne (x / u)" by (rule rne_between(1) [OF lo hi])
  show "rne (x / u) \<le> 2 ^ 53" by (rule rne_between(2) [OF lo hi])
  have "fl x - x = (of_int (rne (x / u)) - x / u) * u"
    using u by (simp add: f field_simps)
  then have "\<bar>fl x - x\<bar> = \<bar>of_int (rne (x / u)) - x / u\<bar> * u"
    using u by (simp add: abs_mult)
  also have "\<dots> \<le> 1 / 2 * u"
    using rne_err [of "x / u"] u by (intro mult_right_mono) auto
  finally show "\<bar>fl x - x\<bar> \<le> u / 2" by simp
qed

text \<open>
  Some values: the double \<open>0.1\<close>, and the doubles met when the width of a 1000 by
  1450 image is set to 150 (\<open>0.6896551724137931\<close>, then \<open>217.49999999999997\<close>)
  and when the height of a 201 by 200 image is set to 500 (\<open>1.005\<close> rounded down,
  then \<open>502.49999999999994\<close>).
\<close>

lemma fl_examples:
  "fl (1 / 10) = 3602879701896397 / 36028797018963968"
  "js_div 1000 1450 = 1552965388748447 / 2251799813685248"
  "js_div 150 (js_div 1000 1450) = 435 / 2 - 1 / 2 ^ 45"
  "js_div 201 200 = 1131529406376837 / 1125899906842624"
  "js_mul 500 (js_div 201 200) = 1005 / 2 - 1 / 2 ^ 44"
  by code_simp+

lemma fl_pos_bounds:
  assumes "0 < x"
  shows "x / 2 \<le> fl x" and "fl x \<le> 2 * x"
proof -
  have e: "\<bar>fl x - x\<bar> \<le> x / 2 ^ 53" by (rule fl_err [OF assms])
  have "x / 2 ^ 53 \<le> x / 2" using assms by (intro divide_left_mono) auto
  with e show "x / 2 \<le> fl x" and "fl x \<le> 2 * x" using assms by linarith+
qed

lemma fmul_close:
  assumes r: "0 < r" and v: "0 < v"
  shows "\<bar>fl (v * fl r) - v * r\<bar> \<le> 3 * (v * r) / 2 ^ 53"
proof -
  define y where "y = fl r"
  have y: "\<bar>y - r\<bar> \<le> r / 2 ^ 53" unfolding y_def by (rule fl_err [OF r])
  have ypos: "0 < y" and yle: "y \<le> 2 * r"
    using fl_pos_bounds [OF r] r by (auto simp: y_def)
  have p: "0 < v * y" using v ypos by simp
  have 1: "\<bar>fl (v * y) - v * y\<bar> \<le> v * y / 2 ^ 53" by (rule fl_err [OF p])
  have "v * y \<le> v * (2 * r)" using yle v by (intro mult_left_mono) auto
  then have "v * y \<le> 2 * (v * r)" by (simp add: mult_ac)
  then have 2: "v * y / 2 ^ 53 \<le> 2 * (v * r) / 2 ^ 53"
    by (rule divide_right_mono) simp
  have "\<bar>v * y - v * r\<bar> = v * \<bar>y - r\<bar>"
    using v by (simp add: abs_mult right_diff_distrib [symmetric])
  also have "\<dots> \<le> v * (r / 2 ^ 53)" using y v by (intro mult_left_mono) auto
  finally have 3: "\<bar>v * y - v * r\<bar> \<le> (v * r) / 2 ^ 53" by simp
  from 1 2 3 show ?thesis unfolding y_def [symmetric] by linarith
qed

lemma fdiv_close:
  assumes r: "0 < r" and v: "0 < v"
  shows "\<bar>fl (v / fl r) - v / r\<bar> \<le> 5 * (v / r) / 2 ^ 53"
proof -
  define y where "y = fl r"
  have y: "\<bar>y - r\<bar> \<le> r / 2 ^ 53" unfolding y_def by (rule fl_err [OF r])
  then have y': "\<bar>r - y\<bar> \<le> r / 2 ^ 53" by (simp add: abs_minus_commute)
  have ylo: "r / 2 \<le> y" using fl_pos_bounds [OF r] by (simp add: y_def)
  have ypos: "0 < y" using ylo r by linarith
  have p: "0 < v / y" using v ypos by simp
  have 1: "\<bar>fl (v / y) - v / y\<bar> \<le> v / y / 2 ^ 53" by (rule fl_err [OF p])
  have inv: "1 / y \<le> 2 / r"
    using ylo r ypos by (simp add: field_simps)
  have "v / y - v / r = v * (r - y) / (y * r)"
    using r ypos by (simp add: field_simps)
  then have "\<bar>v / y - v / r\<bar> = v * \<bar>r - y\<bar> / (y * r)"
    using r ypos v by (simp add: abs_mult)
  also have "\<dots> \<le> v * (r / 2 ^ 53) / (y * r)"
    using y' v r ypos by (intro divide_right_mono mult_left_mono) auto
  also have "\<dots> = v / 2 ^ 53 * (1 / y)" using r by simp
  also have "\<dots> \<le> v / 2 ^ 53 * (2 / r)"
    using inv v by (intro mult_left_mono) auto
  finally have 3: "\<bar>v / y - v / r\<bar> \<le> 2 * (v / r) / 2 ^ 53" by simp
  have "v / y = v * (1 / y)" by simp
  also have "\<dots> \<le> v * (2 / r)" using inv v by (intro mult_left_mono) auto
  finally have "v / y \<le> 2 * (v / r)" by (simp add: mult_ac)
  then have 2: "v / y / 2 ^ 53 \<le> 2 * (v / r) / 2 ^ 53"
    by (rule divide_right_mono) simp
  from 1 2 3 show ?thesis unfolding y_def [symmetric] by linarith
qed

lemma Math_round_nonneg: "0 \<le> x \<Longrightarrow> 0 \<le> Math_round x"
  unfolding Math_round_def by simp


section \<open>The handlers, field by field\<close>

lemma handleDimensionChange_Width:
  "originalDimensions s = Some od \<Longrightarrow>
   dimensions (handleDimensionChange Width v s) =
     \<lparr>width = v,
      height = Math_round (js_div (of_int v)
                 (js_div (of_int (width od)) (of_int (height od))))\<rparr>"
  by (simp add: handleDimensionChange_def)

lemma handleDimensionChange_Height:
  "originalDimensions s = Some od \<Longrightarrow>
   dimensions (handleDimensionChange Height v s) =
     \<lparr>width = Math_round (js_mul (of_int v)
                (js_div (of_int (width od)) (of_int (height od)))),
      height = v\<rparr>"
  by (simp add: handleDimensionChange_def)

lemma handleDimensionChange_None:
  "originalDimensions s = None \<Longrightarrow>
   dimensions (handleDimensionChange Width v s) = (dimensions s)\<lparr>width := v\<rparr> \<and>
   dimensions (handleDimensionChange Height v s) = (dimensions s)\<lparr>height := v\<rparr>"
  by (simp add: handleDimensionChange_def)

lemma ratio_bounds:
  fixes v a b :: int
  assumes "0 < a" "a < 2 ^ 32" "0 < b" "1 \<le> v" "v \<le> 5000"
  shows "0 < (of_int a / of_int b :: rat)"
    and "0 < (of_int v :: rat)"
    and "of_int v * (of_int a / of_int b) \<le> (5000 * 2 ^ 32 :: rat)"
proof -
  have a: "(0::rat) < of_int a" and b: "(1::rat) \<le> of_int b" and v: "(0::rat) < of_int v"
    using assms by simp_all
  show "0 < (of_int a / of_int b :: rat)" using a b by simp
  show "0 < (of_int v :: rat)" by (rule v)
  have a2: "(of_int a :: rat) \<le> 2 ^ 32"
    using assms(2) by (metis less_imp_le of_int_le_iff of_int_numeral of_int_power)
  have "of_int a / of_int b \<le> (of_int a :: rat)"
    using a b by (simp add: field_simps mult_le_cancel_left1) 
  then have r: "of_int a / of_int b \<le> (2 ^ 32 :: rat)" using a2 by linarith
  have v5: "(of_int v :: rat) \<le> 5000" using assms(5) by simp
  have "of_int v * (of_int a / of_int b) \<le> (5000 :: rat) * 2 ^ 32"
    using v5 r v a b by (intro mult_mono) auto
  then show "of_int v * (of_int a / of_int b) \<le> (5000 * 2 ^ 32 :: rat)" by simp
qed

text \<open>
  The exact rounding of \<open>p / q\<close> is \<open>(2 * p + q) div (2 * q)\<close>, and the quotient is
  exactly half-way between two integers when \<open>(2 * p + q) mod (2 * q) = 0\<close>.  A
  number closer to \<open>p / q\<close> than \<open>1 / (2 * q)\<close> rounds to the same integer
  unless \<open>p / q\<close> is such a tie, and then to that integer or the one below.
\<close>

lemma round_exact_div:
  assumes "0 < q"
  shows "round_exact p q = (2 * p + q) div (2 * q)"
proof -
  have "of_int p / (of_int q :: rat) + 1 / 2 = of_int (2 * p + q) / of_int (2 * q)"
    using assms by (simp add: field_simps)
  then show ?thesis
    unfolding round_exact_def by (simp only: floor_divide_of_int_eq)
qed

lemma Math_round_near_quotient:
  fixes p q :: int and y :: rat
  assumes q: "0 < q" and e: "\<bar>y - of_int p / of_int q\<bar> < 1 / (2 * of_int q)"
  shows "Math_round y \<le> round_exact p q"
    and "round_exact p q - 1 \<le> Math_round y"
    and "(2 * p + q) mod (2 * q) \<noteq> 0 \<Longrightarrow> Math_round y = round_exact p q"
proof -
  define N where "N = 2 * p + q"
  define D where "D = 2 * q"
  define k where "k = N div D"
  define r where "r = N mod D"
  have D: "0 < D" using q by (simp add: D_def)
  have Dr: "(0::rat) < of_int D" using D by simp
  have N: "N = k * D + r" by (simp add: k_def r_def)
  have r0: "0 \<le> r" using D by (simp add: r_def)
  have "r < D" using D by (simp add: r_def)
  then have r1: "r \<le> D - 1" by simp
  have z: "of_int p / (of_int q :: rat) + 1 / 2 = of_int k + of_int r / of_int D"
  proof -
    have "of_int p / (of_int q :: rat) + 1 / 2 = of_int N / of_int D"
      using q by (simp add: N_def D_def field_simps)
    also have "\<dots> = of_int k + of_int r / of_int D"
      using Dr by (simp add: N field_simps)
    finally show ?thesis .
  qed
  have e': "\<bar>(y + 1 / 2) - (of_int k + of_int r / of_int D)\<bar> < 1 / of_int D"
    using e z by (simp add: D_def)
  have rD0: "(0::rat) \<le> of_int r / of_int D" using r0 Dr by simp
  have "(of_int r :: rat) \<le> of_int D - 1" using r1 by (metis of_int_1 of_int_diff of_int_le_iff)
  then have rD1: "of_int r / of_int D + 1 / of_int D \<le> (1::rat)"
    using Dr by (simp add: field_simps)
  have D1: "1 / of_int D \<le> (1::rat)" using D by simp
  have re: "round_exact p q = k"
    using round_exact_div [OF q] by (simp add: k_def N_def D_def)
  have up: "y + 1 / 2 < of_int k + 1" using e' rD1 by linarith
  have lo: "of_int k - 1 < y + 1 / 2" using e' rD0 D1 by linarith
  show "Math_round y \<le> round_exact p q"
    unfolding re Math_round_def using up by linarith
  show "round_exact p q - 1 \<le> Math_round y"
    unfolding re Math_round_def using lo by linarith
  show "Math_round y = round_exact p q" if "(2 * p + q) mod (2 * q) \<noteq> 0"
  proof -
    have "1 \<le> r" using that r0 by (simp add: r_def N_def D_def)
    then have "(1::rat) \<le> of_int r" by simp
    then have "1 / of_int D \<le> (of_int r :: rat) / of_int D"
      using Dr by (simp add: divide_right_mono)
    then have "of_int k \<le> y + 1 / 2" using e' by linarith
    then show ?thesis unfolding re Math_round_def using up by linarith
  qed
qed

text \<open>
  The two roundings to a double move the quotient or product by less than
  \<open>1 / (2 * q)\<close>, for an edited value from 1 to 5000 and natural dimensions
  below \<open>2 ^ 32\<close>.
\<close>

lemma product_bound:
  fixes v a :: int
  assumes "1 \<le> v" "v \<le> 5000" "0 < a" "a < 2 ^ 32"
  shows "10 * (of_int v * of_int a) < (2 ^ 53 :: rat)"
proof -
  define m where "m = v * a"
  have "m \<le> 5000 * a" unfolding m_def using assms by (intro mult_right_mono) auto
  moreover have "a < 4294967296" using assms by simp
  ultimately have "10 * m < 9007199254740992" by linarith
  then have "(of_int (10 * m) :: rat) < of_int 9007199254740992"
    by (simp only: of_int_less_iff)
  then show ?thesis by (simp add: m_def)
qed

lemma locked_height_error:
  fixes v ow oh :: int
  assumes "0 < ow" "ow < 2 ^ 32" "0 < oh" "oh < 2 ^ 32" "1 \<le> v" "v \<le> 5000"
  shows "\<bar>js_div (of_int v) (js_div (of_int ow) (of_int oh))
          - of_int (v * oh) / of_int ow\<bar> < 1 / (2 * of_int ow)"
proof -
  define r :: rat where "r = of_int ow / of_int oh"
  define x :: rat where "x = of_int v / r"
  have r: "0 < r" and v: "0 < (of_int v :: rat)"
    using ratio_bounds(1,2) [of ow oh v] assms by (simp_all add: r_def)
  have ow: "(0::rat) < of_int ow" using assms by simp
  have xeq: "x = of_int (v * oh) / of_int ow"
    by (simp add: x_def r_def)
  have "\<bar>fl (of_int v / fl r) - x\<bar> \<le> 5 * x / 2 ^ 53"
    unfolding x_def by (rule fdiv_close [OF r v])
  also have "5 * x / 2 ^ 53 = (10 * (of_int v * of_int oh)) / 2 ^ 53 * (1 / (2 * of_int ow))"
    by (simp add: xeq mult_ac)
  also have "\<dots> < 1 * (1 / (2 * of_int ow))"
    using product_bound [of v oh] assms ow by (intro mult_strict_right_mono) auto
  finally show ?thesis by (simp add: js_div_def r_def xeq)
qed

lemma locked_width_error:
  fixes v ow oh :: int
  assumes "0 < ow" "ow < 2 ^ 32" "0 < oh" "oh < 2 ^ 32" "1 \<le> v" "v \<le> 5000"
  shows "\<bar>js_mul (of_int v) (js_div (of_int ow) (of_int oh))
          - of_int (v * ow) / of_int oh\<bar> < 1 / (2 * of_int oh)"
proof -
  define r :: rat where "r = of_int ow / of_int oh"
  define x :: rat where "x = of_int v * r"
  have r: "0 < r" and v: "0 < (of_int v :: rat)"
    using ratio_bounds(1,2) [of ow oh v] assms by (simp_all add: r_def)
  have oh: "(0::rat) < of_int oh" using assms by simp
  have xeq: "x = of_int (v * ow) / of_int oh"
    by (simp add: x_def r_def)
  have x0: "0 \<le> x" using r v by (simp add: x_def)
  have "\<bar>fl (of_int v * fl r) - x\<bar> \<le> 3 * x / 2 ^ 53"
    unfolding x_def by (rule fmul_close [OF r v])
  also have "\<dots> \<le> 5 * x / 2 ^ 53"
    using x0 by (intro divide_right_mono mult_right_mono) auto
  also have "5 * x / 2 ^ 53 = (10 * (of_int v * of_int ow)) / 2 ^ 53 * (1 / (2 * of_int oh))"
    by (simp add: xeq mult_ac)
  also have "\<dots> < 1 * (1 / (2 * of_int oh))"
    using product_bound [of v ow] assms oh by (intro mult_strict_right_mono) auto
  finally show ?thesis by (simp add: js_mul_def js_div_def r_def xeq)
qed

lemma locked_field_nonneg:
  fixes v ow oh :: int
  assumes "0 < ow" "0 < oh" "0 \<le> v"
  shows "0 \<le> Math_round (js_div (of_int v) (js_div (of_int ow) (of_int oh)))"
    and "0 \<le> Math_round (js_mul (of_int v) (js_div (of_int ow) (of_int oh)))"
proof -
  have r: "0 \<le> fl (of_int ow / of_int oh)"
    using assms by (intro fl_nonneg) simp
  have v: "(0::rat) \<le> of_int v" using assms by simp
  show "0 \<le> Math_round (js_div (of_int v) (js_div (of_int ow) (of_int oh)))"
    unfolding js_div_def using r v
    by (intro Math_round_nonneg fl_nonneg divide_nonneg_nonneg) (use assms in simp_all)
  show "0 \<le> Math_round (js_mul (of_int v) (js_div (of_int ow) (of_int oh)))"
    unfolding js_div_def js_mul_def using r v
    by (intro Math_round_nonneg fl_nonneg mult_nonneg_nonneg divide_nonneg_nonneg)
      (use assms in simp_all)
qed

lemma dimensions_untouched:
  "dimensions (onDrop acceptedFiles rejectedFiles s) = dimensions s"
  "dimensions (checkImage s) = dimensions s"
  "dimensions (checkImage_response co s) = dimensions s"
  "dimensions (processImage s) = dimensions s"
  "dimensions (processImage_response po s) = dimensions s"
  "dimensions (processImage_img_onload url w h s) = dimensions s"
  "dimensions (processImage_img_onerror s) = dimensions s"
  "dimensions (checkButton_onClick s) = dimensions s"
  "dimensions (processButton_onClick s) = dimensions s"
  by (simp_all add: onDrop_def checkImage_def checkImage_response_def checkImage_catch_def
      processImage_def processImage_response_def processImage_catch_def
      processImage_img_onload_def processImage_img_onerror_def
      checkButton_onClick_def processButton_onClick_def
      split: option.splits check_outcome.splits process_outcome.splits)

lemma checkImage_failure_atomic:
  "outcome = CheckRejected err \<or> outcome = CheckNotOk status errorText \<Longrightarrow>
   results (checkState (checkImage_response outcome s)) = results (checkState s) \<and>
   fixOptions (checkImage_response outcome s) = fixOptions s \<and>
   CheckState.error (checkState (checkImage_response outcome s)) \<noteq> None"
  by (auto simp: checkImage_response_def checkImage_catch_def)

lemma processImage_failure_atomic:
  "processedImage (state (processImage_response (ProcessRejected err) s)) =
     processedImage (state s) \<and>
   processedImageDimensions (state (processImage_response (ProcessRejected err) s)) =
     processedImageDimensions (state s) \<and>
   processedImage (state (processImage_response (ProcessNotOk status errorText) s)) =
     processedImage (state s) \<and>
   processedImageDimensions (state (processImage_response (ProcessNotOk status errorText) s)) =
     processedImageDimensions (state s) \<and>
   processedImage (state (processImage_img_onerror s)) = processedImage (state s) \<and>
   processedImageDimensions (state (processImage_img_onerror s)) =
     processedImageDimensions (state s) \<and>
   processedImage (state (processImage s)) = processedImage (state s) \<and>
   processedImageDimensions (state (processImage s)) = processedImageDimensions (state s)"
  by (simp add: processImage_response_def processImage_catch_def
      processImage_img_onerror_def processImage_def split: option.splits)

section \<open>The claims\<close>

subsection \<open>C1: processing before any check\<close>

text \<open>
  Claim C1 says that \<open>startProcess\<close> is rejected, with no request issued, whenever
  \<open>checkState.results\<close> is \<open>null\<close>, and that the operation itself enforces
  this, independently of a disabled button.  \<open>processImage\<close> tests only
  \<open>originalImage\<close>: called on an uploaded, unchecked image it issues the request.
\<close>

theorem processImage_without_results_counterexample:
  "results (checkState (loaded 2000 1000)) = None \<and>
   requests (processImage (loaded 2000 1000)) \<noteq> requests (loaded 2000 1000)"
  by (simp add: home_defs processImage_def)

text \<open>
  Claim C1 as the code has it: while \<open>checkState.results\<close> is \<open>null\<close> the process
  button is disabled, so a click on it changes nothing and issues no request, with
  or without an uploaded image; \<open>processImage\<close> itself issues no request without an
  uploaded image and exactly one request with one.
\<close>

theorem processButton_gates_processImage:
  "results (checkState s) = None \<Longrightarrow>
     processButton_onClick s = s \<and>
     requests (processImage s) =
       (case originalImage s of
          None \<Rightarrow> requests s
        | Some oi \<Rightarrow> requests s @
            [ProcessRequest (file' oi)
               (fix_dimensions (fixOptions s)) (fix_background (fixOptions s))
               (fix_alignment (fixOptions s))
               (width (dimensions s)) (height (dimensions s))])"
  by (simp add: processButton_onClick_def processButton_disabled_def processImage_def
      split: option.splits)

theorem processButton_gates_processImage_witness:
  "results (checkState (loaded 2000 1000)) = None \<and>
   processButton_onClick (loaded 2000 1000) = loaded 2000 1000 \<and>
   requests (processImage (loaded 2000 1000)) =
     [ProcessRequest exampleFile True True True 1200 1200]"
proof -
  have h: "results (checkState (loaded 2000 1000)) = None"
    by (simp add: home_defs)
  show ?thesis
    using h processButton_gates_processImage [OF h] by (simp add: home_defs)
qed

subsection \<open>C2: a successful check overwrites the fix selection\<close>

text \<open>
  Claim C2: when a check completes with results \<open>res\<close>, whatever the fix options
  were before, they become the negations of the three check results:
  \<open>fix_dimensions = \<not> dimension_check\<close>, \<open>fix_background = \<not> background_check\<close>,
  \<open>fix_alignment = \<not> alignment_check\<close>; the results are stored and the check is
  no longer in flight.
\<close>

theorem checkImage_success_overwrites_fixOptions:
  "fixOptions (checkImage_response (CheckJson res) s) =
     \<lparr>fix_dimensions = \<not> dimension_check res,
      fix_background = \<not> background_check res,
      fix_alignment = \<not> alignment_check res\<rparr> \<and>
   results (checkState (checkImage_response (CheckJson res) s)) = Some res \<and>
   isChecking (checkState (checkImage_response (CheckJson res) s)) = False"
  by (simp add: checkImage_response_def)

theorem checkImage_success_overwrites_fixOptions_witness:
  "fixOptions checked =
     \<lparr>fix_dimensions = False, fix_background = True, fix_alignment = True\<rparr> \<and>
   results (checkState checked) = Some exampleResults"
  using checkImage_success_overwrites_fixOptions
    [of exampleResults "checkButton_onClick (loaded 2000 1000)"]
  by (simp add: checked_def exampleResults_def)

subsection \<open>C3: the locked aspect ratio\<close>

text \<open>
  Claim C3 says that with natural dimensions \<open>(ow, oh)\<close> an edit of the width to
  \<open>w\<close> gives the height \<open>round (w * oh / ow)\<close> and an edit of the height to
  \<open>h\<close> gives the width \<open>round (h * ow / oh)\<close>.  The code divides and multiplies
  by the double \<open>ow / oh\<close>; two roundings to a double can carry a quotient that is
  exactly half-way below the half.  Width 150 on a 1000 by 1450 image gives 217, not
  \<open>round 217.5 = 218\<close>; height 500 on a 201 by 200 image gives 502, not
  \<open>round 502.5 = 503\<close>.
\<close>

theorem handleDimensionChange_exact_round_counterexample:
  "height (dimensions (handleDimensionChange Width 150 (loaded 1000 1450))) = 217 \<and>
   round_exact (150 * 1450) 1000 = 218 \<and>
   width (dimensions (handleDimensionChange Height 500 (loaded 201 200))) = 502 \<and>
   round_exact (500 * 201) 200 = 503"
  by code_simp

text \<open>
  Claim C3 as the code has it.  With natural dimensions \<open>od\<close> the edited field is
  stored as given and the other field is \<open>Math.round\<close> of the double
  \<open>value / (od.width / od.height)\<close>, or of \<open>value * (od.width / od.height)\<close>.
  For a value from 1 to 5000 and natural dimensions below \<open>2 ^ 32\<close> the other
  field equals the exactly rounded quotient \<open>round (w * oh / ow)\<close>, or
  \<open>round (h * ow / oh)\<close>, whenever that quotient is not exactly half-way between
  two integers; at an exact tie it is that rounding or one less.  Without natural
  dimensions only the edited field changes.
\<close>

theorem handleDimensionChange_locked_ratio:
  "(originalDimensions s = Some od \<and> 0 < width od \<and> 0 < height od \<longrightarrow>
      dimensions (handleDimensionChange Width v s) =
        \<lparr>width = v,
         height = Math_round (js_div (of_int v)
                    (js_div (of_int (width od)) (of_int (height od))))\<rparr> \<and>
      dimensions (handleDimensionChange Height v s) =
        \<lparr>width = Math_round (js_mul (of_int v)
                   (js_div (of_int (width od)) (of_int (height od)))),
         height = v\<rparr>) \<and>
   (originalDimensions s = Some od \<and> 0 < width od \<and> width od < 2 ^ 32 \<and>
    0 < height od \<and> height od < 2 ^ 32 \<and> 1 \<le> v \<and> v \<le> 5000 \<longrightarrow>
      width (dimensions (handleDimensionChange Width v s)) = v \<and>
      round_exact (v * height od) (width od) - 1
        \<le> height (dimensions (handleDimensionChange Width v s)) \<and>
      height (dimensions (handleDimensionChange Width v s))
        \<le> round_exact (v * height od) (width od) \<and>
      ((2 * (v * height od) + width od) mod (2 * width od) \<noteq> 0 \<longrightarrow>
         height (dimensions (handleDimensionChange Width v s)) =
           round_exact (v * height od) (width od)) \<and>
      height (dimensions (handleDimensionChange Height v s)) = v \<and>
      round_exact (v * width od) (height od) - 1
        \<le> width (dimensions (handleDimensionChange Height v s)) \<and>
      width (dimensions (handleDimensionChange Height v s))
        \<le> round_exact (v * width od) (height od) \<and>
      ((2 * (v * width od) + height od) mod (2 * height od) \<noteq> 0 \<longrightarrow>
         width (dimensions (handleDimensionChange Height v s)) =
           round_exact (v * width od) (height od))) \<and>
   (originalDimensions s = None \<longrightarrow>
      dimensions (handleDimensionChange Width v s) = (dimensions s)\<lparr>width := v\<rparr> \<and>
      dimensions (handleDimensionChange Height v s) = (dimensions s)\<lparr>height := v\<rparr>)"
proof (intro conjI)
  show "originalDimensions s = Some od \<and> 0 < width od \<and> 0 < height od \<longrightarrow>
      dimensions (handleDimensionChange Width v s) =
        \<lparr>width = v,
         height = Math_round (js_div (of_int v)
                    (js_div (of_int (width od)) (of_int (height od))))\<rparr> \<and>
      dimensions (handleDimensionChange Height v s) =
        \<lparr>width = Math_round (js_mul (of_int v)
                   (js_div (of_int (width od)) (of_int (height od)))),
         height = v\<rparr>"
    by (simp add: handleDimensionChange_Width handleDimensionChange_Height)
next
  show "originalDimensions s = Some od \<and> 0 < width od \<and> width od < 2 ^ 32 \<and>
    0 < height od \<and> height od < 2 ^ 32 \<and> 1 \<le> v \<and> v \<le> 5000 \<longrightarrow>
      width (dimensions (handleDimensionChange Width v s)) = v \<and>
      round_exact (v * height od) (width od) - 1
        \<le> height (dimensions (handleDimensionChange Width v s)) \<and>
      height (dimensions (handleDimensionChange Width v s))
        \<le> round_exact (v * height od) (width od) \<and>
      ((2 * (v * height od) + width od) mod (2 * width od) \<noteq> 0 \<longrightarrow>
         height (dimensions (handleDimensionChange Width v s)) =
           round_exact (v * height od) (width od)) \<and>
      height (dimensions (handleDimensionChange Height v s)) = v \<and>
      round_exact (v * width od) (height od) - 1
        \<le> width (dimensions (handleDimensionChange Height v s)) \<and>
      width (dimensions (handleDimensionChange Height v s))
        \<le> round_exact (v * width od) (height od) \<and>
      ((2 * (v * width od) + height od) mod (2 * height od) \<noteq> 0 \<longrightarrow>
         width (dimensions (handleDimensionChange Height v s)) =
           round_exact (v * width od) (height od))"
  proof
    assume a: "originalDimensions s = Some od \<and> 0 < width od \<and> width od < 2 ^ 32 \<and>
      0 < height od \<and> height od < 2 ^ 32 \<and> 1 \<le> v \<and> v \<le> 5000"
    then have od: "originalDimensions s = Some od"
      and w: "0 < width od" and h: "0 < height od" by simp_all
    have eh: "\<bar>js_div (of_int v) (js_div (of_int (width od)) (of_int (height od)))
          - of_int (v * height od) / of_int (width od)\<bar> < 1 / (2 * of_int (width od))"
      using a by (intro locked_height_error) simp_all
    have ew: "\<bar>js_mul (of_int v) (js_div (of_int (width od)) (of_int (height od)))
          - of_int (v * width od) / of_int (height od)\<bar> < 1 / (2 * of_int (height od))"
      using a by (intro locked_width_error) simp_all
    show "width (dimensions (handleDimensionChange Width v s)) = v \<and>
      round_exact (v * height od) (width od) - 1
        \<le> height (dimensions (handleDimensionChange Width v s)) \<and>
      height (dimensions (handleDimensionChange Width v s))
        \<le> round_exact (v * height od) (width od) \<and>
      ((2 * (v * height od) + width od) mod (2 * width od) \<noteq> 0 \<longrightarrow>
         height (dimensions (handleDimensionChange Width v s)) =
           round_exact (v * height od) (width od)) \<and>
      height (dimensions (handleDimensionChange Height v s)) = v \<and>
      round_exact (v * width od) (height od) - 1
        \<le> width (dimensions (handleDimensionChange Height v s)) \<and>
      width (dimensions (handleDimensionChange Height v s))
        \<le> round_exact (v * width od) (height od) \<and>
      ((2 * (v * width od) + height od) mod (2 * height od) \<noteq> 0 \<longrightarrow>
         width (dimensions (handleDimensionChange Height v s)) =
           round_exact (v * width od) (height od))"
      unfolding handleDimensionChange_Width [OF od] handleDimensionChange_Height [OF od]
      using Math_round_near_quotient [OF w eh] Math_round_near_quotient [OF h ew]
      by simp
  qed
next
  show "originalDimensions s = None \<longrightarrow>
      dimensions (handleDimensionChange Width v s) = (dimensions s)\<lparr>width := v\<rparr> \<and>
      dimensions (handleDimensionChange Height v s) = (dimensions s)\<lparr>height := v\<rparr>"
    by (simp add: handleDimensionChange_None)
qed

text \<open>
  The scenario of the specification: a 2000 by 1000 image, width edited to 800; and
  the tie above, width 150 on a 1000 by 1450 image.
\<close>

lemma eval_locked:
  "Math_round (js_div 800 (js_div 2000 1000)) = 400"
  "round_exact 800000 2000 = 400"
  "Math_round (js_div 150 (js_div 1000 1450)) = 217"
  "round_exact 217500 1000 = 218"
  by code_simp+

theorem handleDimensionChange_locked_ratio_witness:
  "originalDimensions (loaded 2000 1000) = Some \<lparr>width = 2000, height = 1000\<rparr> \<and>
   (2 * (800 * 1000) + 2000) mod (2 * 2000) \<noteq> (0::int) \<and>
   dimensions (handleDimensionChange Width 800 (loaded 2000 1000)) =
     \<lparr>width = 800, height = 400\<rparr> \<and>
   height (dimensions (handleDimensionChange Width 800 (loaded 2000 1000))) =
     round_exact (800 * 1000) 2000 \<and>
   originalDimensions (loaded 1000 1450) = Some \<lparr>width = 1000, height = 1450\<rparr> \<and>
   (2 * (150 * 1450) + 1000) mod (2 * 1000) = (0::int) \<and>
   height (dimensions (handleDimensionChange Width 150 (loaded 1000 1450))) =
     round_exact (150 * 1450) 1000 - 1 \<and>
   originalDimensions initialHome = None \<and>
   dimensions (handleDimensionChange Width 800 initialHome) =
     \<lparr>width = 800, height = 1200\<rparr>"
proof -
  have h: "originalDimensions (loaded 2000 1000) = Some \<lparr>width = 2000, height = 1000\<rparr>"
    by (simp add: home_defs)
  have t: "originalDimensions (loaded 1000 1450) = Some \<lparr>width = 1000, height = 1450\<rparr>"
    by (simp add: home_defs)
  have n: "originalDimensions initialHome = None"
    by (simp add: initialHome_def)
  have d: "dimensions initialHome = \<lparr>width = 1200, height = 1200\<rparr>"
    by (simp add: initialHome_def defaultDimensions_def)
  show ?thesis
    using h t n d
      handleDimensionChange_locked_ratio
        [of "loaded 2000 1000" "\<lparr>width = 2000, height = 1000\<rparr>" 800]
      handleDimensionChange_locked_ratio
        [of "loaded 1000 1450" "\<lparr>width = 1000, height = 1450\<rparr>" 150]
      handleDimensionChange_locked_ratio [of initialHome undefined 800]
    by (simp add: eval_locked)
qed

subsection \<open>C4: a failed check or process call keeps the earlier result\<close>

text \<open>
  Claim C4 says that a failed check (network error, status that is not a success,
  malformed response) leaves the earlier check results and fix options as they
  were and stores an error, and that a failed process call leaves the earlier
  processed image as it was.  \<open>checkImage_failure_atomic\<close> and
  \<open>processImage_failure_atomic\<close> show this for a rejected call, for a status that
  is not a success and for an image that fails to decode.  A response with status
  200 and body \<open>null\<close> breaks it: \<open>checkImage\<close> stores \<open>results: null\<close>
  before the read of \<open>results.dimension_check\<close> throws, so the error is recorded
  and the earlier results are gone.
\<close>

theorem checkImage_null_body_discards_results:
  "results (checkState checked) = Some exampleResults \<and>
   results (checkState (checkImage_response CheckJsonNull (checkButton_onClick checked)))
     = None \<and>
   CheckState.error
     (checkState (checkImage_response CheckJsonNull (checkButton_onClick checked)))
     = Some ''Cannot read properties of null (reading 'dimension_check')'' \<and>
   fixOptions (checkImage_response CheckJsonNull (checkButton_onClick checked))
     = fixOptions checked"
  by (simp add: run_defs)

subsection \<open>C5: an upload starts a fresh session\<close>

text \<open>
  Claim C5: from every state, a successful upload (the file read and decoded, so
  that \<open>img.onload\<close> runs) leaves no check results, no processed image and no
  dimensions of one, no check error and no processing error, all three fix options
  selected, and the target dimensions 1200 by 1200.
\<close>

theorem onDrop_img_onload_resets_session:
  "results (checkState (onDrop_img_onload f result w h s)) = None \<and>
   processedImage (state (onDrop_img_onload f result w h s)) = None \<and>
   processedImageDimensions (state (onDrop_img_onload f result w h s)) = None \<and>
   CheckState.error (checkState (onDrop_img_onload f result w h s)) = None \<and>
   ProcessingState.error (state (onDrop_img_onload f result w h s)) = None \<and>
   fixOptions (onDrop_img_onload f result w h s) =
     \<lparr>fix_dimensions = True, fix_background = True, fix_alignment = True\<rparr> \<and>
   dimensions (onDrop_img_onload f result w h s) = \<lparr>width = 1200, height = 1200\<rparr> \<and>
   originalImage (onDrop_img_onload f result w h s) =
     Some \<lparr>file' = f, preview = result\<rparr> \<and>
   originalDimensions (onDrop_img_onload f result w h s) =
     Some \<lparr>width = w, height = h\<rparr>"
  by (simp add: onDrop_img_onload_def)

text \<open>
  An upload into a session that holds check results, a processed image, edited
  dimensions and a check error.
\<close>

theorem onDrop_img_onload_resets_session_witness:
  "results (checkState (onDrop_img_onload exampleFile ''data:,'' 640 480
     (checkImage_response (CheckRejected None)
       (handleDimensionChange Width 800 (processedWith ''blob:1'' checked))))) = None \<and>
   processedImage (state (onDrop_img_onload exampleFile ''data:,'' 640 480
     (checkImage_response (CheckRejected None)
       (handleDimensionChange Width 800 (processedWith ''blob:1'' checked))))) = None \<and>
   dimensions (onDrop_img_onload exampleFile ''data:,'' 640 480
     (checkImage_response (CheckRejected None)
       (handleDimensionChange Width 800 (processedWith ''blob:1'' checked)))) =
     \<lparr>width = 1200, height = 1200\<rparr>"
  using onDrop_img_onload_resets_session [of exampleFile "''data:,''" 640 480
      "checkImage_response (CheckRejected None)
         (handleDimensionChange Width 800 (processedWith ''blob:1'' checked))"]
  by simp

subsection \<open>C6: the range of the target dimensions\<close>

text \<open>
  Claim C6 says that after every operation both target dimensions lie in
  \<open>[1, 5000]\<close>, the recomputed field included whenever the edited value is in
  range.  The recomputed field is not clamped: width 5000 on a 1000 by 2000 image
  gives the height 10000.
\<close>

theorem handleDimensionChange_range_counterexample:
  "validDimensions \<lparr>width = 5000, height = 1\<rparr> \<and>
   dimensions (handleDimensionChange Width 5000 (loaded 1000 2000)) =
     \<lparr>width = 5000, height = 10000\<rparr> \<and>
   \<not> validDimensions (dimensions (handleDimensionChange Width 5000 (loaded 1000 2000)))"
  by code_simp

text \<open>
  Claim C6 as the code has it: an upload and a reset set the target dimensions to
  1200 by 1200, which is in range; the check and process operations and their
  callbacks leave them as they are; an edit stores the edited value as given, so
  the edited field is in range exactly when the value is; without natural
  dimensions the other field is kept; with positive natural dimensions it is
  recomputed without any clamping, and it is non-negative when the edited value is
  non-negative.
\<close>

theorem dimensions_range_by_operation:
  "dimensions (onDrop_img_onload f result w h s) = \<lparr>width = 1200, height = 1200\<rparr> \<and>
   dimensions (reset s) = \<lparr>width = 1200, height = 1200\<rparr> \<and>
   validDimensions (dimensions (onDrop_img_onload f result w h s)) \<and>
   validDimensions (dimensions (reset s)) \<and>
   dimensions (onDrop acceptedFiles rejectedFiles s) = dimensions s \<and>
   dimensions (checkImage s) = dimensions s \<and>
   dimensions (checkImage_response co s) = dimensions s \<and>
   dimensions (processImage s) = dimensions s \<and>
   dimensions (processImage_response po s) = dimensions s \<and>
   dimensions (processImage_img_onload url w h s) = dimensions s \<and>
   dimensions (processImage_img_onerror s) = dimensions s \<and>
   width (dimensions (handleDimensionChange Width v s)) = v \<and>
   height (dimensions (handleDimensionChange Height v s)) = v \<and>
   (originalDimensions s = None \<longrightarrow>
      height (dimensions (handleDimensionChange Width v s)) = height (dimensions s) \<and>
      width (dimensions (handleDimensionChange Height v s)) = width (dimensions s)) \<and>
   (originalDimensions s = Some od \<and> 0 < width od \<and> 0 < height od \<and> 0 \<le> v \<longrightarrow>
      0 \<le> height (dimensions (handleDimensionChange Width v s)) \<and>
      0 \<le> width (dimensions (handleDimensionChange Height v s)))"
proof -
  have 0: "dimensions (onDrop_img_onload f result w h s) = \<lparr>width = 1200, height = 1200\<rparr>"
    "dimensions (reset s) = \<lparr>width = 1200, height = 1200\<rparr>"
    by (simp_all add: onDrop_img_onload_def reset_def)
  have 1: "validDimensions (dimensions (onDrop_img_onload f result w h s))"
    by (simp add: onDrop_img_onload_def validDimensions_def)
  have 2: "validDimensions (dimensions (reset s))"
    by (simp add: reset_def validDimensions_def)
  have 3: "width (dimensions (handleDimensionChange Width v s)) = v"
    by (simp add: handleDimensionChange_def Let_def split: option.splits)
  have 4: "height (dimensions (handleDimensionChange Height v s)) = v"
    by (simp add: handleDimensionChange_def Let_def split: option.splits)
  have 5: "originalDimensions s = None \<longrightarrow>
      height (dimensions (handleDimensionChange Width v s)) = height (dimensions s) \<and>
      width (dimensions (handleDimensionChange Height v s)) = width (dimensions s)"
    by (simp add: handleDimensionChange_None)
  have 6: "originalDimensions s = Some od \<and> 0 < width od \<and> 0 < height od \<and> 0 \<le> v \<longrightarrow>
      0 \<le> height (dimensions (handleDimensionChange Width v s)) \<and>
      0 \<le> width (dimensions (handleDimensionChange Height v s))"
    using locked_field_nonneg [of "width od" "height od" v]
    by (simp add: handleDimensionChange_Width handleDimensionChange_Height)
  show ?thesis
    using 0 1 2 3 4 5 6 by (simp only: dimensions_untouched simp_thms)
qed

theorem dimensions_range_by_operation_witness:
  "originalDimensions (loaded 1000 2000) = Some \<lparr>width = 1000, height = 2000\<rparr> \<and>
   width (dimensions (handleDimensionChange Width 5000 (loaded 1000 2000))) = 5000 \<and>
   0 \<le> height (dimensions (handleDimensionChange Width 5000 (loaded 1000 2000))) \<and>
   originalDimensions initialHome = None \<and>
   height (dimensions (handleDimensionChange Width 5000 initialHome)) = 1200 \<and>
   dimensions (reset (handleDimensionChange Width 5000 (loaded 1000 2000))) =
     \<lparr>width = 1200, height = 1200\<rparr> \<and>
   validDimensions (dimensions (reset (loaded 1000 2000)))"
proof -
  have h: "originalDimensions (loaded 1000 2000) = Some \<lparr>width = 1000, height = 2000\<rparr>"
    by (simp add: home_defs)
  have n: "originalDimensions initialHome = None"
    by (simp add: initialHome_def)
  have d: "dimensions initialHome = \<lparr>width = 1200, height = 1200\<rparr>"
    by (simp add: initialHome_def defaultDimensions_def)
  have e: "dimensions (reset (handleDimensionChange Width 5000 (loaded 1000 2000))) =
     \<lparr>width = 1200, height = 1200\<rparr>"
    by (rule dimensions_range_by_operation [THEN conjunct2, THEN conjunct1])
  show ?thesis
    using h n d e
      dimensions_range_by_operation
        [of undefined undefined 0 0 "loaded 1000 2000" undefined undefined undefined
          undefined undefined 5000 "\<lparr>width = 1000, height = 2000\<rparr>"]
      dimensions_range_by_operation
        [of undefined undefined 0 0 initialHome undefined undefined undefined
          undefined undefined 5000 undefined]
    by (simp add: validDimensions_def)
qed

subsection \<open>C7: a second call while one is in flight\<close>

text \<open>
  Claim C7: while \<open>isChecking\<close> holds, invoking the check again issues no second
  request, and while \<open>isProcessing\<close> holds, invoking processing again issues no
  second request; the repeated call is rejected by the guard on the flag, not
  queued.  The guard is the \<open>disabled\<close> attribute of the two buttons, whose
  \<open>onClick\<close> handlers are the only callers of \<open>checkImage\<close> and
  \<open>processImage\<close>: a click in flight leaves the whole state, the list of requests
  included, as it was.
\<close>

theorem buttons_disabled_in_flight:
  "(isChecking (checkState s) \<longrightarrow>
      checkButton_onClick s = s \<and> requests (checkButton_onClick s) = requests s) \<and>
   (isProcessing (state s) \<longrightarrow>
      processButton_onClick s = s \<and> requests (processButton_onClick s) = requests s)"
  by (simp add: checkButton_onClick_def checkButton_disabled_def
      processButton_onClick_def processButton_disabled_def)

theorem buttons_disabled_in_flight_witness:
  "isChecking (checkState (checkButton_onClick (processButton_onClick checked))) \<and>
   isProcessing (state (checkButton_onClick (processButton_onClick checked))) \<and>
   checkButton_onClick (checkButton_onClick (processButton_onClick checked)) =
     checkButton_onClick (processButton_onClick checked) \<and>
   processButton_onClick (checkButton_onClick (processButton_onClick checked)) =
     checkButton_onClick (processButton_onClick checked) \<and>
   requests (checkButton_onClick (checkButton_onClick (processButton_onClick checked))) =
     requests (checkButton_onClick (processButton_onClick checked)) \<and>
   length (requests (checkButton_onClick (processButton_onClick checked))) = 3"
proof -
  have c: "isChecking (checkState (checkButton_onClick (processButton_onClick checked)))"
    by (simp add: run_defs)
  have p: "isProcessing (state (checkButton_onClick (processButton_onClick checked)))"
    by (simp add: run_defs)
  have r: "length (requests (checkButton_onClick (processButton_onClick checked))) = 3"
    by (simp add: run_defs)
  show ?thesis
    using c p r
      buttons_disabled_in_flight [of "checkButton_onClick (processButton_onClick checked)"]
    by simp
qed

subsection \<open>C8: release of object URLs\<close>

text \<open>
  Claim C8 says that the object URL of a processed image is revoked exactly once,
  when a later processed image replaces it or at a reset, whichever comes first.
  The only \<open>URL.revokeObjectURL\<close> is in \<open>reset\<close>, on the URL stored at that
  moment.  After two successful process calls the first URL has been replaced
  without being revoked, and the reset that follows revokes the second only.
\<close>

theorem superseded_object_url_not_revoked:
  "processedImage (state (processedWith ''blob:1'' checked)) = Some ''blob:1'' \<and>
   processedImage (state (processedWith ''blob:2'' (processedWith ''blob:1'' checked)))
     = Some ''blob:2'' \<and>
   created (processedWith ''blob:2'' (processedWith ''blob:1'' checked))
     = [''blob:1'', ''blob:2''] \<and>
   revoked (processedWith ''blob:2'' (processedWith ''blob:1'' checked)) = [] \<and>
   revoked (reset (processedWith ''blob:2'' (processedWith ''blob:1'' checked)))
     = [''blob:2'']"
  by (simp add: run_defs)

subsection \<open>C9: operations without an uploaded image\<close>

text \<open>
  Claim C9 says that without an uploaded image a check or a process call fails with
  a \<open>NoImage\<close> error, issues no request and shows the failure as an error of its
  kind.  Both functions return at once: no request is issued, and no error is
  recorded either.
\<close>

theorem no_image_error_counterexample:
  "originalImage initialHome = None \<and>
   CheckState.error (checkState (checkImage initialHome)) = None \<and>
   ProcessingState.error (state (processImage initialHome)) = None"
  by (simp add: home_defs checkImage_def processImage_def)

text \<open>
  Claim C9 as the code has it: without an uploaded image \<open>checkImage\<close> and
  \<open>processImage\<close> return the state unchanged, so no request is issued and no
  error is recorded.
\<close>

theorem no_image_returns_silently:
  "originalImage s = None \<Longrightarrow> checkImage s = s \<and> processImage s = s"
  by (simp add: checkImage_def processImage_def)

theorem no_image_returns_silently_witness:
  "originalImage initialHome = None \<and>
   checkImage initialHome = initialHome \<and> processImage initialHome = initialHome \<and>
   requests (checkImage initialHome) = [] \<and> requests (processImage initialHome) = []"
proof -
  have h: "originalImage initialHome = None" by (simp add: initialHome_def)
  have r: "requests initialHome = []" by (simp add: initialHome_def)
  show ?thesis using h r no_image_returns_silently [OF h] by simp
qed

subsection \<open>C10: edits do not depend on the stored dimensions\<close>

text \<open>
  Claim C10: while natural dimensions are present, the target dimensions after an
  edit depend only on the edited field, the value and the natural dimensions, not
  on the target dimensions stored before (two states with the same natural
  dimensions give the same pair); so the same edit applied twice gives what it
  gives applied once.
\<close>

theorem handleDimensionChange_history_free:
  "(originalDimensions s = Some od \<and> originalDimensions s' = Some od \<longrightarrow>
      dimensions (handleDimensionChange fld v s) =
      dimensions (handleDimensionChange fld v s')) \<and>
   handleDimensionChange fld v (handleDimensionChange fld v s) =
     handleDimensionChange fld v s"
  by (cases fld) (auto simp: handleDimensionChange_def Let_def split: option.splits)

lemma eval_5_2000_1000:
  "Math_round (js_mul 5 (js_div 2000 1000)) = 10"
  by code_simp

theorem handleDimensionChange_history_free_witness:
  "originalDimensions (loaded 2000 1000) = Some \<lparr>width = 2000, height = 1000\<rparr> \<and>
   originalDimensions (handleDimensionChange Height 5 (loaded 2000 1000)) =
     Some \<lparr>width = 2000, height = 1000\<rparr> \<and>
   dimensions (loaded 2000 1000) = \<lparr>width = 1200, height = 1200\<rparr> \<and>
   dimensions (handleDimensionChange Height 5 (loaded 2000 1000)) =
     \<lparr>width = 10, height = 5\<rparr> \<and>
   dimensions (handleDimensionChange Width 800 (loaded 2000 1000)) =
     dimensions (handleDimensionChange Width 800
       (handleDimensionChange Height 5 (loaded 2000 1000))) \<and>
   handleDimensionChange Width 800 (handleDimensionChange Width 800 (loaded 2000 1000)) =
     handleDimensionChange Width 800 (loaded 2000 1000)"
proof -
  have a: "originalDimensions (loaded 2000 1000) = Some \<lparr>width = 2000, height = 1000\<rparr>"
    by (simp add: home_defs)
  have b: "originalDimensions (handleDimensionChange Height 5 (loaded 2000 1000)) =
     Some \<lparr>width = 2000, height = 1000\<rparr>"
    by (simp add: home_defs handleDimensionChange_def Let_def)
  have c: "dimensions (loaded 2000 1000) = \<lparr>width = 1200, height = 1200\<rparr>"
    by (simp add: home_defs)
  have d: "dimensions (handleDimensionChange Height 5 (loaded 2000 1000)) =
     \<lparr>width = 10, height = 5\<rparr>"
    using a by (simp add: handleDimensionChange_Height eval_5_2000_1000)
  show ?thesis
    using a b c d
      handleDimensionChange_history_free
        [of "loaded 2000 1000" "\<lparr>width = 2000, height = 1000\<rparr>"
          "handleDimensionChange Height 5 (loaded 2000 1000)" Width 800]
    by simp
qed

end
